theory Spec2Isabelle
  imports Main "HOL-Library.Sublist"
begin

section \<open>Values exchanged on the two sockets\<close>

text \<open>
  Every message of the relay is a JSON document: \<^verbatim>\<open>json.loads\<close> turns an upstream frame
  into a Python value, \<^verbatim>\<open>iter_json\<close> does the same for a downstream frame, and
  \<^verbatim>\<open>send_json\<close> / \<^verbatim>\<open>json.dumps\<close> write one. A Python \<^verbatim>\<open>dict\<close> is kept as the list of
  its items and read with \<open>map_of\<close>. Numbers are never inspected by the program, so one
  constructor stands for all of them. Strings are byte lists (UTF-8); the program only
  searches them for ASCII keys, compares them and iterates over them, which gives the
  same outcome on bytes as on code points.
\<close>

datatype json =
    JNull
  | JBool bool
  | JNum int
  | JStr string
  | JArr "json list"
  | JObj "(string \<times> json) list"

text \<open>The exceptions the program can meet. Only the first two carry a text the source
  or the environment fixes; the text of the others is chosen by the interpreter and the
  socket libraries.\<close>

datatype exn =
    ValueError string
  | ConnectError string
  | ConnectionClosed
  | ClientSendError
  | WebSocketDisconnect
  | JSONDecodeError
  | TypeError
  | KeyError string
  | AttributeError
  | OtherError

subsection \<open>The Python operators the handlers use\<close>

text \<open>\<^verbatim>\<open>key in v\<close>: key lookup on a dict, element equality on a list, substring search on
  a string, \<^verbatim>\<open>TypeError\<close> on \<^verbatim>\<open>None\<close>, booleans and numbers.\<close>

fun py_in :: "string \<Rightarrow> json \<Rightarrow> exn + bool" where
  "py_in k (JObj kv) = Inr (map_of kv k \<noteq> None)"
| "py_in k (JArr xs) = Inr (JStr k \<in> set xs)"
| "py_in k (JStr s) = Inr (sublist k s)"
| "py_in k JNull = Inl TypeError"
| "py_in k (JBool b) = Inl TypeError"
| "py_in k (JNum n) = Inl TypeError"

text \<open>\<^verbatim>\<open>v[key]\<close> with a string key: \<^verbatim>\<open>KeyError\<close> on a dict without the key,
  \<^verbatim>\<open>TypeError\<close> on everything that is not a dict.\<close>

fun py_getitem :: "json \<Rightarrow> string \<Rightarrow> exn + json" where
  "py_getitem (JObj kv) k = (case map_of kv k of None \<Rightarrow> Inl (KeyError k) | Some v \<Rightarrow> Inr v)"
| "py_getitem v k = Inl TypeError"

text \<open>\<^verbatim>\<open>v.get(key)\<close>: \<^verbatim>\<open>None\<close> for a missing key, \<^verbatim>\<open>AttributeError\<close> off a dict.\<close>

fun py_get :: "json \<Rightarrow> string \<Rightarrow> exn + json" where
  "py_get (JObj kv) k = (case map_of kv k of None \<Rightarrow> Inr JNull | Some v \<Rightarrow> Inr v)"
| "py_get v k = Inl AttributeError"

text \<open>\<^verbatim>\<open>for part in v\<close>: the elements of a list, the characters of a string, the keys of
  a dict; \<^verbatim>\<open>TypeError\<close> otherwise.\<close>

fun py_iter :: "json \<Rightarrow> exn + json list" where
  "py_iter (JArr xs) = Inr xs"
| "py_iter (JStr s) = Inr (map (\<lambda>c. JStr [c]) s)"
| "py_iter (JObj kv) = Inr (map (\<lambda>(k, v). JStr k) kv)"
| "py_iter v = Inl TypeError"

section \<open>The session object\<close>

text \<open>A socket as the program sees it: whether a write still succeeds, and what has been
  written so far.\<close>

record socket =
  sock_open :: bool
  sock_sent :: "json list"

datatype log_entry =
    LogInfo string
  | LogInfoVal string json
  | LogError string
  | LogErrorExn string exn

text \<open>\<^verbatim>\<open>GeminiLiveSession\<close>. \<open>listening\<close> records that the task running
  \<^verbatim>\<open>listen_to_gemini\<close> has been created and has not returned; \<open>log\<close> collects the
  calls to \<^verbatim>\<open>logger\<close>. Two more fields belong to the run of \<^verbatim>\<open>websocket_endpoint\<close>
  that owns the object: \<open>registered\<close> is \<^verbatim>\<open>id(session) in active_sessions\<close>, and
  \<open>finished\<close> says that the endpoint has gone through its \<^verbatim>\<open>finally\<close> block.\<close>

record session =
  client_ws :: socket
  gemini_ws :: "socket option"
  is_connected :: bool
  listening :: bool
  log :: "log_entry list"
  registered :: bool
  finished :: bool

type_synonym proc = "session \<Rightarrow> exn option \<times> session"

definition logger :: "log_entry \<Rightarrow> session \<Rightarrow> session" where
  "logger e s = s\<lparr>log := log s @ [e]\<rparr>"

text \<open>\<^verbatim>\<open>await self.client_ws.send_json(m)\<close>: raises once the downstream socket is gone.\<close>

definition client_send_json :: "json \<Rightarrow> proc" where
  "client_send_json m s =
     (if sock_open (client_ws s)
      then (None, s\<lparr>client_ws := (client_ws s)\<lparr>sock_sent := sock_sent (client_ws s) @ [m]\<rparr>\<rparr>)
      else (Some ClientSendError, s))"

text \<open>\<^verbatim>\<open>await self.gemini_ws.send(json.dumps(m))\<close>: \<^verbatim>\<open>AttributeError\<close> on \<^verbatim>\<open>None\<close>,
  \<^verbatim>\<open>ConnectionClosed\<close> on a closed connection.\<close>

definition gemini_send :: "json \<Rightarrow> proc" where
  "gemini_send m s =
     (case gemini_ws s of
        None \<Rightarrow> (Some AttributeError, s)
      | Some g \<Rightarrow>
          if sock_open g
          then (None, s\<lparr>gemini_ws := Some (g\<lparr>sock_sent := sock_sent g @ [m]\<rparr>)\<rparr>)
          else (Some ConnectionClosed, s))"

section \<open>Upstream to downstream: \<^verbatim>\<open>handle_gemini_message\<close>\<close>

definition audio_response :: "json \<Rightarrow> json" where
  "audio_response d = JObj [(''type'', JStr ''audio_response''), (''audio_data'', d)]"

definition text_response :: "json \<Rightarrow> json" where
  "text_response t = JObj [(''type'', JStr ''text_response''), (''text'', t)]"

definition turn_complete :: json where
  "turn_complete = JObj [(''type'', JStr ''turn_complete'')]"

definition setup_complete :: json where
  "setup_complete = JObj [(''type'', JStr ''setup_complete'')]"

text \<open>The test of the first branch of the loop body:
  \<^verbatim>\<open>"inlineData" in part and part["inlineData"]["mimeType"] == "audio/pcm"\<close>.\<close>

definition is_pcm_audio :: "json \<Rightarrow> exn + bool" where
  "is_pcm_audio part =
     (case py_in ''inlineData'' part of
        Inl e \<Rightarrow> Inl e
      | Inr False \<Rightarrow> Inr False
      | Inr True \<Rightarrow>
          (case py_getitem part ''inlineData'' of
             Inl e \<Rightarrow> Inl e
           | Inr i \<Rightarrow>
               (case py_getitem i ''mimeType'' of
                  Inl e \<Rightarrow> Inl e
                | Inr m \<Rightarrow> Inr (m = JStr ''audio/pcm''))))"

text \<open>One round of \<^verbatim>\<open>for part in parts\<close>.\<close>

definition handle_part :: "json \<Rightarrow> proc" where
  "handle_part part s =
     (case is_pcm_audio part of
        Inl e \<Rightarrow> (Some e, s)
      | Inr True \<Rightarrow>
          (case py_getitem part ''inlineData'' of
             Inl e \<Rightarrow> (Some e, s)
           | Inr i \<Rightarrow>
               (case py_getitem i ''data'' of
                  Inl e \<Rightarrow> (Some e, s)
                | Inr d \<Rightarrow> client_send_json (audio_response d) s))
      | Inr False \<Rightarrow>
          (case py_in ''text'' part of
             Inl e \<Rightarrow> (Some e, s)
           | Inr True \<Rightarrow>
               (case py_getitem part ''text'' of
                  Inl e \<Rightarrow> (Some e, s)
                | Inr t \<Rightarrow> client_send_json (text_response t) s)
           | Inr False \<Rightarrow> (None, s)))"

text \<open>The loop: an exception leaves it at once, and what was sent before stays sent.\<close>

fun handle_parts :: "json list \<Rightarrow> proc" where
  "handle_parts [] s = (None, s)"
| "handle_parts (p # ps) s =
     (case handle_part p s of
        (Some e, s') \<Rightarrow> (Some e, s')
      | (None, s') \<Rightarrow> handle_parts ps s')"

definition handle_server_content :: "json \<Rightarrow> proc" where
  "handle_server_content server_content s =
     (case py_in ''modelTurn'' server_content of
        Inl e \<Rightarrow> (Some e, s)
      | Inr True \<Rightarrow>
          (case py_getitem server_content ''modelTurn'' of
             Inl e \<Rightarrow> (Some e, s)
           | Inr mt \<Rightarrow>
               (case py_getitem mt ''parts'' of
                  Inl e \<Rightarrow> (Some e, s)
                | Inr parts \<Rightarrow>
                    (case py_iter parts of
                       Inl e \<Rightarrow> (Some e, s)
                     | Inr ps \<Rightarrow> handle_parts ps s)))
      | Inr False \<Rightarrow>
          (case py_in ''turnComplete'' server_content of
             Inl e \<Rightarrow> (Some e, s)
           | Inr True \<Rightarrow> client_send_json turn_complete s
           | Inr False \<Rightarrow> (None, s)))"

definition handle_gemini_message :: "json \<Rightarrow> proc" where
  "handle_gemini_message message s =
     (case py_in ''serverContent'' message of
        Inl e \<Rightarrow> (Some e, s)
      | Inr True \<Rightarrow>
          (case py_getitem message ''serverContent'' of
             Inl e \<Rightarrow> (Some e, s)
           | Inr server_content \<Rightarrow> handle_server_content server_content s)
      | Inr False \<Rightarrow>
          (case py_in ''setupComplete'' message of
             Inl e \<Rightarrow> (Some e, s)
           | Inr True \<Rightarrow>
               client_send_json setup_complete (logger (LogInfo ''Gemini setup completed'') s)
           | Inr False \<Rightarrow> (None, s)))"

section \<open>Downstream to upstream: the three senders\<close>

definition audio_message :: "json \<Rightarrow> json" where
  "audio_message audio_data =
     JObj [(''clientContent'',
       JObj [(''turns'',
                JArr [JObj [(''role'', JStr ''user''),
                            (''parts'',
                               JArr [JObj [(''inlineData'',
                                 JObj [(''mimeType'', JStr ''audio/pcm''),
                                       (''data'', audio_data)])]])]]),
             (''turnComplete'', JBool True)])]"

definition text_message :: "json \<Rightarrow> json" where
  "text_message text =
     JObj [(''clientContent'',
       JObj [(''turns'',
                JArr [JObj [(''role'', JStr ''user''),
                            (''parts'', JArr [JObj [(''text'', text)]])]]),
             (''turnComplete'', JBool True)])]"

definition interrupt_message :: json where
  "interrupt_message = JObj [(''clientContent'', JObj [(''turnComplete'', JBool False)])]"

definition not_connected :: "session \<Rightarrow> bool" where
  "not_connected s = (\<not> is_connected s \<or> gemini_ws s = None)"

definition send_audio_to_gemini :: "json \<Rightarrow> proc" where
  "send_audio_to_gemini audio_data s =
     (if not_connected s then (None, logger (LogError ''Not connected to Gemini'') s)
      else case gemini_send (audio_message audio_data) s of
             (None, s') \<Rightarrow> (None, logger (LogInfo ''Audio sent to Gemini'') s')
           | (Some e, s') \<Rightarrow>
               (None, logger (LogErrorExn ''Failed to send audio to Gemini: '' e) s'))"

definition send_text_to_gemini :: "json \<Rightarrow> proc" where
  "send_text_to_gemini text s =
     (if not_connected s then (None, logger (LogError ''Not connected to Gemini'') s)
      else case gemini_send (text_message text) s of
             (None, s') \<Rightarrow> (None, logger (LogInfoVal ''Text sent to Gemini: '' text) s')
           | (Some e, s') \<Rightarrow>
               (None, logger (LogErrorExn ''Failed to send text to Gemini: '' e) s'))"

definition interrupt_gemini :: proc where
  "interrupt_gemini s =
     (if not_connected s then (None, s)
      else case gemini_send interrupt_message s of
             (None, s') \<Rightarrow> (None, logger (LogInfo ''Interrupt sent to Gemini'') s')
           | (Some e, s') \<Rightarrow>
               (None, logger (LogErrorExn ''Failed to send interrupt: '' e) s'))"

text \<open>\<^verbatim>\<open>close\<close>: closing a connection twice is harmless.\<close>

definition close :: "session \<Rightarrow> session" where
  "close s =
     (case gemini_ws s of
        None \<Rightarrow> s\<lparr>is_connected := False\<rparr>
      | Some g \<Rightarrow> s\<lparr>gemini_ws := Some (g\<lparr>sock_open := False\<rparr>), is_connected := False\<rparr>)"

section \<open>Connecting\<close>

text \<open>
  What the process and the network decide: the value of \<^verbatim>\<open>GEMINI_API_KEY\<close>, the module
  constant \<^verbatim>\<open>SYSTEM_INSTRUCTION\<close> (its text plays no part below), the outcome of
  \<^verbatim>\<open>websockets.connect\<close>, and the text \<^verbatim>\<open>str(e)\<close> of the exceptions the libraries raise.
  \<open>ConnectOk b\<close> is a new connection; \<open>b\<close> is false when the peer has dropped it again
  by the time the handshake is written.
\<close>

datatype connect_result = ConnectFails string | ConnectOk bool

record env =
  api_key :: "string option"
  SYSTEM_INSTRUCTION :: string
  connect :: connect_result
  exc_str :: "exn \<Rightarrow> string"

definition str_exn :: "env \<Rightarrow> exn \<Rightarrow> string" where
  "str_exn ev e = (case e of ValueError m \<Rightarrow> m | ConnectError m \<Rightarrow> m | _ \<Rightarrow> exc_str ev e)"

definition setup_message :: "env \<Rightarrow> json" where
  "setup_message ev =
     JObj [(''setup'',
       JObj [(''model'', JStr ''models/gemini-2.0-flash-live-001''),
             (''generation_config'',
                JObj [(''response_modalities'', JArr [JStr ''AUDIO'']),
                      (''speech_config'',
                         JObj [(''voice_config'',
                           JObj [(''prebuilt_voice_config'',
                             JObj [(''voice_name'', JStr ''Aoede'')])])])]),
             (''system_instruction'',
                JObj [(''parts'', JArr [JObj [(''text'', JStr (SYSTEM_INSTRUCTION ev))]])])])]"

definition setup_session :: "env \<Rightarrow> proc" where
  "setup_session ev s =
     (case gemini_send (setup_message ev) s of
        (Some e, s') \<Rightarrow> (Some e, s')
      | (None, s') \<Rightarrow> (None, logger (LogInfo ''Session setup sent to Gemini'') s'))"

definition connection_status :: "string \<Rightarrow> json" where
  "connection_status st = JObj [(''type'', JStr ''connection_status''), (''status'', JStr st)]"

definition error_envelope :: "string \<Rightarrow> json" where
  "error_envelope detail =
     JObj [(''type'', JStr ''error''),
           (''message'', JStr (''Failed to connect to AI service: '' @ detail))]"

text \<open>The body of the \<^verbatim>\<open>try\<close> block of \<^verbatim>\<open>connect_to_gemini\<close>.\<close>

definition connect_body :: "env \<Rightarrow> proc" where
  "connect_body ev s =
     (if api_key ev = None \<or> api_key ev = Some []
      then (Some (ValueError ''GEMINI_API_KEY not found in environment variables''), s)
      else
        let s1 = logger (LogInfo ''Connecting to Gemini Live API...'') s in
        case connect ev of
          ConnectFails txt \<Rightarrow> (Some (ConnectError txt), s1)
        | ConnectOk b \<Rightarrow>
            let s2 = s1\<lparr>gemini_ws := Some \<lparr>sock_open = b, sock_sent = []\<rparr>,
                        is_connected := True\<rparr> in
            (case setup_session ev s2 of
               (Some e, s3) \<Rightarrow> (Some e, s3)
             | (None, s3) \<Rightarrow>
                 (case client_send_json (connection_status ''connected'') s3 of
                    (Some e, s4) \<Rightarrow> (Some e, s4)
                  | (None, s4) \<Rightarrow>
                      (None, (logger (LogInfo ''Successfully connected to Gemini Live API'') s4)
                               \<lparr>listening := True\<rparr>))))"

text \<open>\<^verbatim>\<open>connect_to_gemini\<close>: every exception of the body is answered with one \<^verbatim>\<open>error\<close>
  envelope; when writing that envelope fails too, the exception leaves the function.\<close>

definition connect_to_gemini :: "env \<Rightarrow> proc" where
  "connect_to_gemini ev s =
     (case connect_body ev s of
        (None, s') \<Rightarrow> (None, s')
      | (Some e, s') \<Rightarrow>
          client_send_json (error_envelope (str_exn ev e))
            (logger (LogErrorExn ''Failed to connect to Gemini: '' e) s'))"

section \<open>The listener task: \<^verbatim>\<open>listen_to_gemini\<close>\<close>

text \<open>A frame read from the upstream connection, as \<^verbatim>\<open>json.loads\<close> sees it.\<close>

datatype frame = Malformed | Parsed json

text \<open>The body of \<^verbatim>\<open>async for message in self.gemini_ws\<close>, with its two handlers.\<close>

definition listen_frame :: "frame \<Rightarrow> session \<Rightarrow> session" where
  "listen_frame f s =
     (case (case f of Malformed \<Rightarrow> (Some JSONDecodeError, s)
                    | Parsed d \<Rightarrow> handle_gemini_message d s) of
        (None, s') \<Rightarrow> s'
      | (Some e, s') \<Rightarrow>
          if e = JSONDecodeError
          then logger (LogErrorExn ''Failed to parse Gemini message: '' e) s'
          else logger (LogErrorExn ''Error handling Gemini message: '' e) s')"

text \<open>The iteration raises: the two outer handlers. The task is over afterwards; an
  exception of the last \<^verbatim>\<open>send_json\<close> dies with it.\<close>

definition listen_raised :: "exn \<Rightarrow> session \<Rightarrow> session" where
  "listen_raised e s =
     (if e = ConnectionClosed
      then
        let s1 = (logger (LogInfo ''Gemini WebSocket connection closed'') s)
                   \<lparr>is_connected := False\<rparr> in
        (snd (client_send_json (connection_status ''disconnected'') s1))\<lparr>listening := False\<rparr>
      else (logger (LogErrorExn ''Error in Gemini listener: '' e) s)\<lparr>listening := False\<rparr>)"

section \<open>The endpoint: \<^verbatim>\<open>websocket_endpoint\<close>\<close>

definition pong :: json where
  "pong = JObj [(''type'', JStr ''pong'')]"

text \<open>The body of \<^verbatim>\<open>async for message in websocket.iter_json()\<close>.\<close>

definition handle_client_message :: "json \<Rightarrow> proc" where
  "handle_client_message message s =
     (case py_get message ''type'' of
        Inl e \<Rightarrow> (Some e, s)
      | Inr message_type \<Rightarrow>
          if message_type = JStr ''audio_data'' then
            (case py_getitem message ''data'' of
               Inl e \<Rightarrow> (Some e, s)
             | Inr d \<Rightarrow> send_audio_to_gemini d s)
          else if message_type = JStr ''text_data'' then
            (case py_getitem message ''data'' of
               Inl e \<Rightarrow> (Some e, s)
             | Inr d \<Rightarrow> send_text_to_gemini d s)
          else if message_type = JStr ''interrupt'' then interrupt_gemini s
          else if message_type = JStr ''ping'' then client_send_json pong s
          else (None, s))"

text \<open>The handlers and the \<^verbatim>\<open>finally\<close> block of the endpoint.\<close>

definition teardown :: "session \<Rightarrow> session" where
  "teardown s = (close s)\<lparr>registered := False, finished := True\<rparr>"

definition endpoint_raised :: "exn \<Rightarrow> session \<Rightarrow> session" where
  "endpoint_raised e s =
     teardown (if e = WebSocketDisconnect then logger (LogInfo ''Client disconnected'') s
               else logger (LogErrorExn ''WebSocket error: '' e) s)"

text \<open>
  What can happen to a session once the endpoint waits in its loop. The two tasks of a
  session run on one event loop; a step is one round of either loop, or a socket going
  away. \<open>ClientJson\<close>, \<open>ClientRaises\<close> and \<open>ClientEnds\<close> are the three ways one round of
  \<^verbatim>\<open>iter_json\<close> can go; \<open>GeminiFrame\<close>, \<open>GeminiRaises\<close> and \<open>GeminiEnds\<close> the three ways
  one round of the upstream iteration can go, and they reach nobody when the listener
  task does not run. After the \<^verbatim>\<open>finally\<close> block the downstream socket is handed back to
  the server, and later events are not followed.
\<close>

datatype event =
    ClientJson json
  | ClientRaises exn
  | ClientEnds
  | ClientCloses
  | GeminiFrame frame
  | GeminiRaises exn
  | GeminiEnds
  | GeminiCloses

definition drop_client :: "session \<Rightarrow> session" where
  "drop_client s = s\<lparr>client_ws := (client_ws s)\<lparr>sock_open := False\<rparr>\<rparr>"

definition drop_gemini :: "session \<Rightarrow> session" where
  "drop_gemini s =
     (case gemini_ws s of None \<Rightarrow> s
      | Some g \<Rightarrow> s\<lparr>gemini_ws := Some (g\<lparr>sock_open := False\<rparr>)\<rparr>)"

fun step :: "event \<Rightarrow> session \<Rightarrow> session" where
  "step (ClientJson m) s =
     (if finished s then s
      else case handle_client_message m s of
             (None, s') \<Rightarrow> s'
           | (Some e, s') \<Rightarrow> endpoint_raised e s')"
| "step (ClientRaises e) s = (if finished s then s else endpoint_raised e s)"
| "step ClientEnds s = (if finished s then s else teardown s)"
| "step ClientCloses s = (if finished s then s else drop_client s)"
| "step (GeminiFrame f) s = (if finished s \<or> \<not> listening s then s else listen_frame f s)"
| "step (GeminiRaises e) s = (if finished s \<or> \<not> listening s then s else listen_raised e s)"
| "step GeminiEnds s = (if finished s \<or> \<not> listening s then s else s\<lparr>listening := False\<rparr>)"
| "step GeminiCloses s = (if finished s then s else drop_gemini s)"

definition new_session :: "socket \<Rightarrow> session" where
  "new_session ws =
     \<lparr>client_ws = ws, gemini_ws = None, is_connected = False, listening = False,
      log = [], registered = True, finished = False\<rparr>"

text \<open>The endpoint up to its loop, and then through a sequence of events.\<close>

definition endpoint_start :: "env \<Rightarrow> socket \<Rightarrow> session" where
  "endpoint_start ev ws =
     (case connect_to_gemini ev (new_session ws) of
        (None, s) \<Rightarrow> s
      | (Some e, s) \<Rightarrow> endpoint_raised e s)"

fun run_events :: "event list \<Rightarrow> session \<Rightarrow> session" where
  "run_events [] s = s"
| "run_events (e # es) s = run_events es (step e s)"

definition websocket_endpoint :: "env \<Rightarrow> socket \<Rightarrow> event list \<Rightarrow> session" where
  "websocket_endpoint ev ws evs = run_events evs (endpoint_start ev ws)"

section \<open>Vocabulary of the properties\<close>

text \<open>
  The parts of a model turn, by shape. A recognised audio part is a dict whose
  \<^verbatim>\<open>inlineData\<close> is a dict with \<^verbatim>\<open>mimeType\<close> equal to \<^verbatim>\<open>"audio/pcm"\<close> and a \<^verbatim>\<open>data\<close>
  field; its payload is that field. A text part is a dict with a \<^verbatim>\<open>text\<close> field and no
  \<^verbatim>\<open>inlineData\<close>. Another well-formed part is a dict without \<^verbatim>\<open>text\<close> whose
  \<^verbatim>\<open>inlineData\<close>, when present, is a dict with some other \<^verbatim>\<open>mimeType\<close>.
\<close>

fun audio_payload :: "json \<Rightarrow> json option" where
  "audio_payload (JObj kv) =
     (case map_of kv ''inlineData'' of
        Some (JObj ikv) \<Rightarrow>
          (if map_of ikv ''mimeType'' = Some (JStr ''audio/pcm'') then map_of ikv ''data''
           else None)
      | _ \<Rightarrow> None)"
| "audio_payload v = None"

fun text_payload :: "json \<Rightarrow> json option" where
  "text_payload (JObj kv) =
     (if map_of kv ''inlineData'' = None then map_of kv ''text'' else None)"
| "text_payload v = None"

fun other_part :: "json \<Rightarrow> bool" where
  "other_part (JObj kv) =
     (map_of kv ''text'' = None \<and>
      (case map_of kv ''inlineData'' of
         None \<Rightarrow> True
       | Some (JObj ikv) \<Rightarrow>
           (case map_of ikv ''mimeType'' of
              None \<Rightarrow> False
            | Some m \<Rightarrow> m \<noteq> JStr ''audio/pcm'')
       | Some v \<Rightarrow> False))"
| "other_part v = False"

definition part_ok :: "json \<Rightarrow> bool" where
  "part_ok p = (audio_payload p \<noteq> None \<or> text_payload p \<noteq> None \<or> other_part p)"

text \<open>The envelopes a part stands for, and the kind of an envelope.\<close>

definition relay_part :: "json \<Rightarrow> json list" where
  "relay_part p =
     (case audio_payload p of
        Some d \<Rightarrow> [audio_response d]
      | None \<Rightarrow> (case text_payload p of Some t \<Rightarrow> [text_response t] | None \<Rightarrow> []))"

definition envelope_kind :: "json \<Rightarrow> string \<Rightarrow> bool" where
  "envelope_kind m k = (py_get m ''type'' = Inr (JStr k))"

text \<open>A session after some more envelopes have gone downstream.\<close>

definition emit :: "json list \<Rightarrow> session \<Rightarrow> session" where
  "emit ms s = s\<lparr>client_ws := (client_ws s)\<lparr>sock_sent := sock_sent (client_ws s) @ ms\<rparr>\<rparr>"

text \<open>Two sessions that differ in their logs at most.\<close>

definition same_but_log :: "session \<Rightarrow> session \<Rightarrow> bool" where
  "same_but_log s t = (s\<lparr>log := []\<rparr> = t\<lparr>log := []\<rparr>)"

text \<open>Sample data: an open downstream socket and a session in full swing.\<close>

definition open_socket :: socket where
  "open_socket = \<lparr>sock_open = True, sock_sent = []\<rparr>"

definition live_session :: session where
  "live_session =
     \<lparr>client_ws = \<lparr>sock_open = True, sock_sent = []\<rparr>,
      gemini_ws = Some \<lparr>sock_open = True, sock_sent = []\<rparr>,
      is_connected = True, listening = True, log = [], registered = True,
      finished = False\<rparr>"





text \<open>More sample data: two environments, two envelopes, and a session whose upstream
  connection has gone while \<open>is_connected\<close> still holds.\<close>

definition env_without_key :: env where
  "env_without_key =
     \<lparr>api_key = None, SYSTEM_INSTRUCTION = ''You are Rev'', connect = ConnectOk True,
      exc_str = (\<lambda>e. ''connection closed'')\<rparr>"

definition env_with_key :: env where
  "env_with_key =
     \<lparr>api_key = Some ''k'', SYSTEM_INSTRUCTION = ''You are Rev'', connect = ConnectOk True,
      exc_str = (\<lambda>e. ''connection closed'')\<rparr>"

definition audio_envelope :: json where
  "audio_envelope = JObj [(''type'', JStr ''audio_data''), (''data'', JStr ''QUJD'')]"

definition ping_envelope :: json where
  "ping_envelope = JObj [(''type'', JStr ''ping'')]"

definition stale_session :: session where
  "stale_session =
     \<lparr>client_ws = \<lparr>sock_open = True, sock_sent = []\<rparr>,
      gemini_ws = Some \<lparr>sock_open = False, sock_sent = []\<rparr>,
      is_connected = True, listening = False, log = [], registered = True,
      finished = False\<rparr>"




section \<open>Verified properties\<close>

subsection \<open>Upstream to downstream\<close>

lemma handle_parts_append:
  "handle_parts (ps @ qs) s =
     (case handle_parts ps s of (Some e, s') \<Rightarrow> (Some e, s') | (None, s') \<Rightarrow> handle_parts qs s')"
  by (induction ps arbitrary: s) (auto split: prod.splits option.splits)

lemma emit_Nil: "emit [] s = s"
  by (simp add: emit_def)

lemma emit_emit: "emit ms (emit ns s) = emit (ns @ ms) s"
  by (simp add: emit_def)

lemma emit_open: "sock_open (client_ws (emit ms s)) = sock_open (client_ws s)"
  by (simp add: emit_def)

lemma handle_part_relay:
  assumes "sock_open (client_ws s)" and "part_ok p"
  shows "handle_part p s = (None, emit (relay_part p) s)"
proof (cases p)
  case (JObj kv)
  show ?thesis
  proof (cases "map_of kv ''inlineData''")
    case None
    with JObj assms show ?thesis
      by (cases "map_of kv ''text''")
         (simp_all add: handle_part_def is_pcm_audio_def relay_part_def part_ok_def
            client_send_json_def emit_def)
  next
    case (Some i)
    with JObj assms show ?thesis
      by (cases i; cases "map_of kv ''text''")
         (auto simp add: handle_part_def is_pcm_audio_def relay_part_def part_ok_def
            client_send_json_def emit_def split: option.splits if_splits)
  qed
qed (use assms in \<open>simp_all add: part_ok_def\<close>)

lemma handle_parts_relay:
  assumes "sock_open (client_ws s)" and "\<forall>p\<in>set ps. part_ok p"
  shows "handle_parts ps s = (None, emit (concat (map relay_part ps)) s)"
  using assms
proof (induction ps arbitrary: s)
  case Nil
  then show ?case by (simp add: emit_Nil)
next
  case (Cons p ps)
  then show ?case
    by (simp add: handle_part_relay emit_open emit_emit)
qed

lemma count_text:
  "length (filter (\<lambda>m. envelope_kind m ''text_response'') (concat (map relay_part ps)))
     = length (filter (\<lambda>p. audio_payload p = None \<and> text_payload p \<noteq> None) ps)"
  by (induction ps)
     (auto simp: relay_part_def envelope_kind_def audio_response_def text_response_def
        split: option.splits)

lemma count_audio:
  "length (filter (\<lambda>m. envelope_kind m ''audio_response'') (concat (map relay_part ps)))
     = length (filter (\<lambda>p. audio_payload p \<noteq> None) ps)"
  by (induction ps)
     (auto simp: relay_part_def envelope_kind_def audio_response_def text_response_def
        split: option.splits)

lemma text_not_audio: "text_payload p \<noteq> None \<Longrightarrow> audio_payload p = None"
  by (cases p) (auto split: if_splits)

text \<open>
  C3. A \<^verbatim>\<open>serverContent\<close> message that carries a turn-completion marker should give a
  \<^verbatim>\<open>turn_complete\<close> envelope, also when it holds model-turn parts. The handler tests
  \<^verbatim>\<open>turnComplete\<close> in the \<^verbatim>\<open>elif\<close> of the \<^verbatim>\<open>modelTurn\<close> test: on a message with both,
  only the part is relayed and no \<^verbatim>\<open>turn_complete\<close> follows.
\<close>

theorem turn_complete_lost_after_model_turn:
  "sock_sent (client_ws (snd (handle_gemini_message
     (JObj [(''serverContent'',
        JObj [(''modelTurn'', JObj [(''parts'', JArr [JObj [(''text'', JStr ''hi'')]])]),
              (''turnComplete'', JBool True)])])
     (new_session \<lparr>sock_open = True, sock_sent = []\<rparr>)))) =
   [JObj [(''type'', JStr ''text_response''), (''text'', JStr ''hi'')]]"
  by (simp add: handle_gemini_message_def handle_server_content_def handle_part_def
      is_pcm_audio_def client_send_json_def new_session_def text_response_def)


text \<open>
  C4. A \<^verbatim>\<open>serverContent\<close> message whose model turn is a list of text parts and recognised
  audio parts, in any order (other well-formed parts may stand between them), is relayed
  part by part: one \<^verbatim>\<open>text_response\<close> per text part and one \<^verbatim>\<open>audio_response\<close> per audio
  part, in the order of the parts, and nothing else.
\<close>

theorem model_turn_parts_relayed_in_order:
  assumes "sock_open (client_ws s)"
    and "map_of kv ''serverContent'' = Some (JObj sc)"
    and "map_of sc ''modelTurn'' = Some (JObj mt)"
    and "map_of mt ''parts'' = Some (JArr parts)"
    and "\<forall>p\<in>set parts. part_ok p"
  shows "handle_gemini_message (JObj kv) s = (None, emit (concat (map relay_part parts)) s)
       \<and> length (filter (\<lambda>m. envelope_kind m ''text_response'')
                   (concat (map relay_part parts)))
           = length (filter (\<lambda>p. text_payload p \<noteq> None) parts)
       \<and> length (filter (\<lambda>m. envelope_kind m ''audio_response'')
                   (concat (map relay_part parts)))
           = length (filter (\<lambda>p. audio_payload p \<noteq> None) parts)"
proof -
  have "handle_gemini_message (JObj kv) s = handle_parts parts s"
    using assms(2-4) by (simp add: handle_gemini_message_def handle_server_content_def)
  then have run: "handle_gemini_message (JObj kv) s
      = (None, emit (concat (map relay_part parts)) s)"
    using assms(1,5) by (simp add: handle_parts_relay)
  have "(\<lambda>p. audio_payload p = None \<and> text_payload p \<noteq> None) = (\<lambda>p. text_payload p \<noteq> None)"
    using text_not_audio by blast
  then have tcount: "length (filter (\<lambda>m. envelope_kind m ''text_response'')
                   (concat (map relay_part parts)))
           = length (filter (\<lambda>p. text_payload p \<noteq> None) parts)"
    using count_text [of parts] by simp
  show ?thesis
    using run tcount count_audio [of parts] by simp
qed

theorem model_turn_parts_relayed_in_order_witness:
  "sock_open (client_ws live_session)
   \<and> map_of [(''serverContent'', JObj [(''modelTurn'', JObj [(''parts'',
        JArr [JObj [(''text'', JStr ''a'')],
              JObj [(''inlineData'', JObj [(''mimeType'', JStr ''audio/pcm''),
                                           (''data'', JStr ''QUJD'')])],
              JObj [(''text'', JStr ''b'')]])])])] ''serverContent''
       = Some (JObj [(''modelTurn'', JObj [(''parts'',
        JArr [JObj [(''text'', JStr ''a'')],
              JObj [(''inlineData'', JObj [(''mimeType'', JStr ''audio/pcm''),
                                           (''data'', JStr ''QUJD'')])],
              JObj [(''text'', JStr ''b'')]])])])
   \<and> part_ok (JObj [(''text'', JStr ''a'')])
   \<and> part_ok (JObj [(''inlineData'', JObj [(''mimeType'', JStr ''audio/pcm''),
                                           (''data'', JStr ''QUJD'')])])
   \<and> part_ok (JObj [(''text'', JStr ''b'')])
   \<and> sock_sent (client_ws (snd (handle_gemini_message
        (JObj [(''serverContent'', JObj [(''modelTurn'', JObj [(''parts'',
           JArr [JObj [(''text'', JStr ''a'')],
                 JObj [(''inlineData'', JObj [(''mimeType'', JStr ''audio/pcm''),
                                              (''data'', JStr ''QUJD'')])],
                 JObj [(''text'', JStr ''b'')]])])])])
        live_session)))
       = [JObj [(''type'', JStr ''text_response''), (''text'', JStr ''a'')],
          JObj [(''type'', JStr ''audio_response''), (''audio_data'', JStr ''QUJD'')],
          JObj [(''type'', JStr ''text_response''), (''text'', JStr ''b'')]]"
  using model_turn_parts_relayed_in_order
    [of live_session
        "[(''serverContent'', JObj [(''modelTurn'', JObj [(''parts'',
           JArr [JObj [(''text'', JStr ''a'')],
                 JObj [(''inlineData'', JObj [(''mimeType'', JStr ''audio/pcm''),
                                              (''data'', JStr ''QUJD'')])],
                 JObj [(''text'', JStr ''b'')]])])])]"
        "[(''modelTurn'', JObj [(''parts'',
           JArr [JObj [(''text'', JStr ''a'')],
                 JObj [(''inlineData'', JObj [(''mimeType'', JStr ''audio/pcm''),
                                              (''data'', JStr ''QUJD'')])],
                 JObj [(''text'', JStr ''b'')]])])]"
        "[(''parts'',
           JArr [JObj [(''text'', JStr ''a'')],
                 JObj [(''inlineData'', JObj [(''mimeType'', JStr ''audio/pcm''),
                                              (''data'', JStr ''QUJD'')])],
                 JObj [(''text'', JStr ''b'')]])]"
        "[JObj [(''text'', JStr ''a'')],
          JObj [(''inlineData'', JObj [(''mimeType'', JStr ''audio/pcm''),
                                       (''data'', JStr ''QUJD'')])],
          JObj [(''text'', JStr ''b'')]]"]
  by (simp add: live_session_def part_ok_def relay_part_def emit_def
      audio_response_def text_response_def)

text \<open>
  C10. An inline-binary part whose MIME type is not \<^verbatim>\<open>"audio/pcm"\<close> and that has no
  \<^verbatim>\<open>text\<close> field sends nothing downstream and raises nothing: the turn is relayed as if
  the part were not there.
\<close>

theorem unrecognised_inline_part_dropped:
  assumes "map_of kv ''inlineData'' = Some (JObj ikv)"
    and "map_of ikv ''mimeType'' = Some m"
    and "m \<noteq> JStr ''audio/pcm''"
    and "map_of kv ''text'' = None"
  shows "handle_part (JObj kv) s = (None, s)
       \<and> handle_parts (ps @ JObj kv # qs) s = handle_parts (ps @ qs) s"
proof -
  have one: "handle_part (JObj kv) t = (None, t)" for t
    using assms by (simp add: handle_part_def is_pcm_audio_def)
  have "handle_parts (JObj kv # qs) t = handle_parts qs t" for t
    by (simp add: one)
  then show ?thesis
    by (simp add: one handle_parts_append split: prod.splits option.splits)
qed

theorem unrecognised_inline_part_dropped_witness:
  "map_of [(''inlineData'', JObj [(''mimeType'', JStr ''audio/pcm;rate=24000''),
                                  (''data'', JStr ''QUJD'')])] ''inlineData''
     = Some (JObj [(''mimeType'', JStr ''audio/pcm;rate=24000''), (''data'', JStr ''QUJD'')])
   \<and> map_of [(''mimeType'', JStr ''audio/pcm;rate=24000''), (''data'', JStr ''QUJD'')]
         ''mimeType'' = Some (JStr ''audio/pcm;rate=24000'')
   \<and> JStr ''audio/pcm;rate=24000'' \<noteq> JStr ''audio/pcm''
   \<and> map_of [(''inlineData'', JObj [(''mimeType'', JStr ''audio/pcm;rate=24000''),
                                    (''data'', JStr ''QUJD'')])] ''text'' = None
   \<and> handle_part
         (JObj [(''inlineData'', JObj [(''mimeType'', JStr ''audio/pcm;rate=24000''),
                                       (''data'', JStr ''QUJD'')])])
         (new_session \<lparr>sock_open = True, sock_sent = []\<rparr>)
       = (None, new_session \<lparr>sock_open = True, sock_sent = []\<rparr>)"
  using unrecognised_inline_part_dropped
    [of "[(''inlineData'', JObj [(''mimeType'', JStr ''audio/pcm;rate=24000''),
                                 (''data'', JStr ''QUJD'')])]"
        "[(''mimeType'', JStr ''audio/pcm;rate=24000''), (''data'', JStr ''QUJD'')]"
        "JStr ''audio/pcm;rate=24000''"
        "new_session \<lparr>sock_open = True, sock_sent = []\<rparr>" "[]" "[]"]
  by simp

subsection \<open>Downstream to upstream\<close>

text \<open>
  C5. On a connected session an \<^verbatim>\<open>audio_data\<close> envelope with payload \<open>X\<close> puts exactly one
  message on the upstream connection: a \<^verbatim>\<open>clientContent\<close> with one turn of role \<^verbatim>\<open>user\<close>
  whose only part is an inline binary part of MIME type \<^verbatim>\<open>audio/pcm\<close> with data \<open>X\<close>, and
  with \<^verbatim>\<open>turnComplete\<close> true.
\<close>

theorem audio_data_forwarded:
  assumes "\<not> finished s" and "is_connected s" and "gemini_ws s = Some g" and "sock_open g"
    and "map_of kv ''type'' = Some (JStr ''audio_data'')"
    and "map_of kv ''data'' = Some X"
  shows "step (ClientJson (JObj kv)) s =
     logger (LogInfo ''Audio sent to Gemini'')
       (s\<lparr>gemini_ws := Some (g\<lparr>sock_sent := sock_sent g @
          [JObj [(''clientContent'',
             JObj [(''turns'',
                      JArr [JObj [(''role'', JStr ''user''),
                                  (''parts'',
                                     JArr [JObj [(''inlineData'',
                                       JObj [(''mimeType'', JStr ''audio/pcm''),
                                             (''data'', X)])]])]]),
                   (''turnComplete'', JBool True)])]]\<rparr>)\<rparr>)"
  using assms
  by (simp add: handle_client_message_def send_audio_to_gemini_def not_connected_def
      gemini_send_def audio_message_def)

theorem audio_data_forwarded_witness:
  "\<not> finished live_session \<and> is_connected live_session
   \<and> gemini_ws live_session = Some \<lparr>sock_open = True, sock_sent = []\<rparr>
   \<and> sock_open \<lparr>sock_open = True, sock_sent = ([] :: json list)\<rparr>
   \<and> map_of [(''type'', JStr ''audio_data''), (''data'', JStr ''QUJD'')] ''type''
       = Some (JStr ''audio_data'')
   \<and> map_of [(''type'', JStr ''audio_data''), (''data'', JStr ''QUJD'')] ''data''
       = Some (JStr ''QUJD'')
   \<and> gemini_ws (step (ClientJson (JObj [(''type'', JStr ''audio_data''),
                                         (''data'', JStr ''QUJD'')])) live_session) =
       Some \<lparr>sock_open = True, sock_sent =
          [JObj [(''clientContent'',
             JObj [(''turns'',
                      JArr [JObj [(''role'', JStr ''user''),
                                  (''parts'',
                                     JArr [JObj [(''inlineData'',
                                       JObj [(''mimeType'', JStr ''audio/pcm''),
                                             (''data'', JStr ''QUJD'')])]])]]),
                   (''turnComplete'', JBool True)])]]\<rparr>"
  using audio_data_forwarded
    [of live_session "\<lparr>sock_open = True, sock_sent = []\<rparr>"
        "[(''type'', JStr ''audio_data''), (''data'', JStr ''QUJD'')]" "JStr ''QUJD''"]
  by (simp add: live_session_def logger_def)

text \<open>
  C6. On a connected session an \<^verbatim>\<open>interrupt\<close> envelope puts exactly one message on the
  upstream connection: a \<^verbatim>\<open>clientContent\<close> without turns or parts and with
  \<^verbatim>\<open>turnComplete\<close> false.
\<close>

theorem interrupt_forwarded:
  assumes "\<not> finished s" and "is_connected s" and "gemini_ws s = Some g" and "sock_open g"
    and "map_of kv ''type'' = Some (JStr ''interrupt'')"
  shows "step (ClientJson (JObj kv)) s =
     logger (LogInfo ''Interrupt sent to Gemini'')
       (s\<lparr>gemini_ws := Some (g\<lparr>sock_sent := sock_sent g @
          [JObj [(''clientContent'', JObj [(''turnComplete'', JBool False)])]]\<rparr>)\<rparr>)"
  using assms
  by (simp add: handle_client_message_def interrupt_gemini_def not_connected_def
      gemini_send_def interrupt_message_def)

theorem interrupt_forwarded_witness:
  "\<not> finished live_session \<and> is_connected live_session
   \<and> gemini_ws live_session = Some \<lparr>sock_open = True, sock_sent = []\<rparr>
   \<and> sock_open \<lparr>sock_open = True, sock_sent = ([] :: json list)\<rparr>
   \<and> map_of [(''type'', JStr ''interrupt'')] ''type'' = Some (JStr ''interrupt'')
   \<and> gemini_ws (step (ClientJson (JObj [(''type'', JStr ''interrupt'')])) live_session) =
       Some \<lparr>sock_open = True, sock_sent =
          [JObj [(''clientContent'', JObj [(''turnComplete'', JBool False)])]]\<rparr>"
  using interrupt_forwarded
    [of live_session "\<lparr>sock_open = True, sock_sent = []\<rparr>" "[(''type'', JStr ''interrupt'')]"]
  by (simp add: live_session_def logger_def)

text \<open>
  C9. A downstream envelope whose \<^verbatim>\<open>type\<close> is none of \<^verbatim>\<open>audio_data\<close>, \<^verbatim>\<open>text_data\<close>,
  \<^verbatim>\<open>interrupt\<close> and \<^verbatim>\<open>ping\<close> (a missing \<^verbatim>\<open>type\<close> reads as \<^verbatim>\<open>None\<close>) changes nothing:
  no socket is written, no flag moves and nothing is logged.
\<close>

theorem unknown_kind_ignored:
  assumes "py_get (JObj kv) ''type'' = Inr t"
    and "t \<notin> {JStr ''audio_data'', JStr ''text_data'', JStr ''interrupt'', JStr ''ping''}"
  shows "step (ClientJson (JObj kv)) s = s"
  using assms by (simp add: handle_client_message_def)

theorem unknown_kind_ignored_witness:
  "py_get (JObj [(''type'', JStr ''video_data''), (''data'', JStr ''QUJD'')]) ''type''
     = Inr (JStr ''video_data'')
   \<and> JStr ''video_data'' \<notin>
       {JStr ''audio_data'', JStr ''text_data'', JStr ''interrupt'', JStr ''ping''}
   \<and> step (ClientJson (JObj [(''type'', JStr ''video_data''), (''data'', JStr ''QUJD'')]))
         (new_session \<lparr>sock_open = True, sock_sent = []\<rparr>)
       = new_session \<lparr>sock_open = True, sock_sent = []\<rparr>"
  using unknown_kind_ignored
    [of "[(''type'', JStr ''video_data''), (''data'', JStr ''QUJD'')]" "JStr ''video_data''"
        "new_session \<lparr>sock_open = True, sock_sent = []\<rparr>"]
  by simp

subsection \<open>The log does not steer the program\<close>

lemma same_but_log_iff:
  "same_but_log s t \<longleftrightarrow>
     client_ws s = client_ws t \<and> gemini_ws s = gemini_ws t \<and> is_connected s = is_connected t
     \<and> listening s = listening t \<and> registered s = registered t \<and> finished s = finished t"
  by (cases s; cases t) (auto simp: same_but_log_def)

lemma same_but_log_logger [simp]:
  "same_but_log (logger e s) t = same_but_log s t"
  "same_but_log s (logger e t) = same_but_log s t"
  by (simp_all add: same_but_log_iff logger_def)






















subsection \<open>Failures on the upstream connection\<close>

lemmas run_defs =
  websocket_endpoint_def endpoint_start_def connect_to_gemini_def connect_body_def
  setup_session_def gemini_send_def client_send_json_def logger_def new_session_def
  handle_client_message_def send_audio_to_gemini_def send_text_to_gemini_def
  interrupt_gemini_def not_connected_def drop_gemini_def drop_client_def
  env_with_key_def env_without_key_def open_socket_def audio_envelope_def ping_envelope_def
  str_exn_def Let_def

text \<open>
  C7, as stated: a send that fails on a closed upstream connection tears the session
  down. It does not: the upstream connection goes, the next \<^verbatim>\<open>audio_data\<close> envelope is
  logged as a failed send, and the session is still connected, registered and running;
  the \<^verbatim>\<open>ping\<close> after it is answered.
\<close>

theorem send_failure_no_teardown_counterexample:
  "log (websocket_endpoint env_with_key open_socket
          [GeminiCloses, ClientJson audio_envelope, ClientJson ping_envelope])
     = [LogInfo ''Connecting to Gemini Live API...'',
        LogInfo ''Session setup sent to Gemini'',
        LogInfo ''Successfully connected to Gemini Live API'',
        LogErrorExn ''Failed to send audio to Gemini: '' ConnectionClosed]
   \<and> \<not> finished (websocket_endpoint env_with_key open_socket
          [GeminiCloses, ClientJson audio_envelope, ClientJson ping_envelope])
   \<and> registered (websocket_endpoint env_with_key open_socket
          [GeminiCloses, ClientJson audio_envelope, ClientJson ping_envelope])
   \<and> is_connected (websocket_endpoint env_with_key open_socket
          [GeminiCloses, ClientJson audio_envelope, ClientJson ping_envelope])
   \<and> sock_sent (client_ws (websocket_endpoint env_with_key open_socket
          [GeminiCloses, ClientJson audio_envelope, ClientJson ping_envelope]))
     = [JObj [(''type'', JStr ''connection_status''), (''status'', JStr ''connected'')],
        JObj [(''type'', JStr ''pong'')]]"
  by (simp add: run_defs connection_status_def pong_def)

text \<open>
  C7, amended. When a send to the upstream connection fails because the connection is
  closed, the sender catches the exception and logs it, and nothing else changes:
  \<open>is_connected\<close> stays true, nothing is torn down, and the session goes on taking
  envelopes. This holds for audio, text and interrupt alike.
\<close>

theorem failed_send_is_swallowed:
  assumes "\<not> finished s" and "is_connected s" and "gemini_ws s = Some g" and "\<not> sock_open g"
    and "map_of kva ''type'' = Some (JStr ''audio_data'')" and "map_of kva ''data'' = Some X"
    and "map_of kvt ''type'' = Some (JStr ''text_data'')" and "map_of kvt ''data'' = Some T"
    and "map_of kvi ''type'' = Some (JStr ''interrupt'')"
  shows "step (ClientJson (JObj kva)) s
           = logger (LogErrorExn ''Failed to send audio to Gemini: '' ConnectionClosed) s
       \<and> step (ClientJson (JObj kvt)) s
           = logger (LogErrorExn ''Failed to send text to Gemini: '' ConnectionClosed) s
       \<and> step (ClientJson (JObj kvi)) s
           = logger (LogErrorExn ''Failed to send interrupt: '' ConnectionClosed) s"
  using assms
  by (simp add: handle_client_message_def send_audio_to_gemini_def send_text_to_gemini_def
      interrupt_gemini_def not_connected_def gemini_send_def)

theorem failed_send_is_swallowed_witness:
  "\<not> finished stale_session \<and> is_connected stale_session
   \<and> gemini_ws stale_session = Some \<lparr>sock_open = False, sock_sent = []\<rparr>
   \<and> \<not> sock_open \<lparr>sock_open = False, sock_sent = ([] :: json list)\<rparr>
   \<and> map_of [(''type'', JStr ''audio_data''), (''data'', JStr ''QUJD'')] ''type''
       = Some (JStr ''audio_data'')
   \<and> map_of [(''type'', JStr ''audio_data''), (''data'', JStr ''QUJD'')] ''data''
       = Some (JStr ''QUJD'')
   \<and> map_of [(''type'', JStr ''text_data''), (''data'', JStr ''hello'')] ''type''
       = Some (JStr ''text_data'')
   \<and> map_of [(''type'', JStr ''text_data''), (''data'', JStr ''hello'')] ''data''
       = Some (JStr ''hello'')
   \<and> map_of [(''type'', JStr ''interrupt'')] ''type'' = Some (JStr ''interrupt'')
   \<and> step (ClientJson (JObj [(''type'', JStr ''audio_data''), (''data'', JStr ''QUJD'')]))
         stale_session
       = stale_session
           \<lparr>log := [LogErrorExn ''Failed to send audio to Gemini: '' ConnectionClosed]\<rparr>"
  using failed_send_is_swallowed
    [of stale_session "\<lparr>sock_open = False, sock_sent = []\<rparr>"
        "[(''type'', JStr ''audio_data''), (''data'', JStr ''QUJD'')]" "JStr ''QUJD''"
        "[(''type'', JStr ''text_data''), (''data'', JStr ''hello'')]" "JStr ''hello''"
        "[(''type'', JStr ''interrupt'')]"]
  by (simp add: stale_session_def logger_def)








subsection \<open>The handshake\<close>



























end
